theory Spec2Isabelle
  imports Main "HOL-Library.Sublist"
begin

section \<open>The Bovespa collection script\<close>

text \<open>
  A shallow embedding of \<^verbatim>\<open>script_dados_bovespa.py\<close>. The script creates two
  directories, configures the logging module, asks the market-data library for the
  history of one ticker, and writes the table it gets to a CSV file named after the
  current time.

  Everything the script touches outside its own variables is a field of one record, the
  \<open>world\<close>: the file system below the working directory, the sequence of observable
  events (records handed to the logging module, calls of the data library), the lines
  printed, the wall clock and the handler of the root logger. A function of the script is
  a function from a world to an outcome and a world; the outcome is \<open>Inr\<close> of the value
  returned or \<open>Inl\<close> of the exception that escapes, and the world is returned in both
  cases, since what was logged or written before an exception stays logged and written.
\<close>

subsection \<open>Exceptions\<close>

text \<open>
  The handler of \<^verbatim>\<open>fetch_bovespa_data\<close> is \<^verbatim>\<open>except Exception as e\<close>, so the model
  keeps the one fact about the class of an exception that the handler tests: whether it
  derives from \<^verbatim>\<open>Exception\<close>. The classes that derive from \<^verbatim>\<open>BaseException\<close>
  directly are \<^verbatim>\<open>SystemExit\<close>, \<^verbatim>\<open>KeyboardInterrupt\<close>, \<^verbatim>\<open>GeneratorExit\<close> and whatever
  class a library declares so.

  The handler evaluates \<^verbatim>\<open>str(e)\<close>, which runs the method \<^verbatim>\<open>__str__\<close> of the
  exception: \<open>str_of\<close> is what that call does, \<open>Inr\<close> of the text it returns or \<open>Inl\<close> of
  the exception it raises.
\<close>

datatype exc_class =
    SystemExit
  | KeyboardInterrupt
  | GeneratorExit
  | BaseException_sub string
  | Exception_sub string

datatype py_exception = PyException (cls: exc_class) (str_of: "py_exception + string")

fun issubclass_Exception :: "exc_class \<Rightarrow> bool" where
  "issubclass_Exception (Exception_sub name) = True"
| "issubclass_Exception c = False"

definition isinstance_Exception :: "py_exception \<Rightarrow> bool" where
  "isinstance_Exception e = issubclass_Exception (cls e)"

subsection \<open>Paths\<close>

text \<open>
  A \<^verbatim>\<open>pathlib.Path\<close> relative to the working directory is the list of its components;
  the empty list is the working directory itself. \<open>str_path\<close> is \<^verbatim>\<open>str(path)\<close> on a
  POSIX system.
\<close>

type_synonym path = "string list"

fun str_path :: "path \<Rightarrow> string" where
  "str_path [] = ''.''"
| "str_path [c] = c"
| "str_path (c # cs) = c @ ''/'' @ str_path cs"

definition TICKER :: string where
  "TICKER = ''^BVSP''"

definition DATA_DIR :: path where
  "DATA_DIR = [''data'']"

definition LOG_DIR :: path where
  "LOG_DIR = [''logs'']"

subsection \<open>Tables\<close>

text \<open>
  A \<^verbatim>\<open>pandas.DataFrame\<close> as the script uses it: the name of the index, the column
  labels, and the rows in their order, each row its index value (a timestamp, which
  pandas stores as a count of nanoseconds) and its cells. The cells are opaque to the
  script, so their type is a parameter.

  \<open>pd_DataFrame\<close> is the value of the call \<^verbatim>\<open>pd.DataFrame()\<close>. \<open>DataFrame_empty\<close> is the
  property \<^verbatim>\<open>.empty\<close>, true when any axis has length zero. \<open>DataFrame_head\<close> is
  \<^verbatim>\<open>.head()\<close>, the first five rows.
\<close>

record 'v DataFrame =
  index_name :: "string option"
  columns :: "string list"
  rows :: "(int \<times> 'v list) list"

definition pd_DataFrame :: "'v DataFrame" where
  "pd_DataFrame = \<lparr>index_name = None, columns = [], rows = []\<rparr>"

definition DataFrame_empty :: "'v DataFrame \<Rightarrow> bool" where
  "DataFrame_empty df = (rows df = [] \<or> columns df = [])"

definition DataFrame_head :: "'v DataFrame \<Rightarrow> 'v DataFrame" where
  "DataFrame_head df = df\<lparr>rows := take 5 (rows df)\<rparr>"

definition ascending :: "'v DataFrame \<Rightarrow> bool" where
  "ascending df = sorted (map fst (rows df))"

text \<open>
  The text written by \<^verbatim>\<open>to_csv(filename, index=True)\<close>. The conversion of an index
  value and of a cell to text is the library's and is a parameter here (a \<open>formatter\<close>).
  The first record is the header: the label of the index column (empty when the index
  has no name), then the column labels. Every row gives one record: its index value, then
  its cells. A record is written as its fields separated by commas and ended by a line
  feed; a field that holds a comma, a double quote, a line feed or a carriage return is
  written between double quotes, with its double quotes doubled, and so is the one field
  of a record whose only field is empty.
\<close>

record 'v formatter =
  str_index :: "int \<Rightarrow> string"
  str_cell :: "'v \<Rightarrow> string"

definition LF :: char where
  "LF = CHR 0x0A"

definition CR :: char where
  "CR = CHR 0x0D"

definition index_label :: "'v DataFrame \<Rightarrow> string" where
  "index_label df = (case index_name df of None \<Rightarrow> [] | Some name \<Rightarrow> name)"

fun csv_record :: "'v formatter \<Rightarrow> int \<times> 'v list \<Rightarrow> string list" where
  "csv_record fmt (ts, cells) = str_index fmt ts # map (str_cell fmt) cells"

definition csv_records :: "'v formatter \<Rightarrow> 'v DataFrame \<Rightarrow> string list list" where
  "csv_records fmt df = (index_label df # columns df) # map (csv_record fmt) (rows df)"

definition needs_quotes :: "string \<Rightarrow> bool" where
  "needs_quotes text =
     (CHR '','' \<in> set text \<or> CHR 0x22 \<in> set text \<or> LF \<in> set text \<or> CR \<in> set text)"

definition csv_quote :: "string \<Rightarrow> string" where
  "csv_quote text =
     (if needs_quotes text
      then [CHR 0x22] @ concat (map (\<lambda>c. if c = CHR 0x22 then [c, c] else [c]) text) @ [CHR 0x22]
      else text)"

fun join :: "string \<Rightarrow> string list \<Rightarrow> string" where
  "join sep [] = []"
| "join sep [x] = x"
| "join sep (x # xs) = x @ sep @ join sep xs"

definition csv_line :: "string list \<Rightarrow> string" where
  "csv_line texts =
     (if texts = [''''] then [CHR 0x22, CHR 0x22] else join '','' (map csv_quote texts))"

definition csv_text :: "'v formatter \<Rightarrow> 'v DataFrame \<Rightarrow> string" where
  "csv_text fmt df = concat (map (\<lambda>texts. csv_line texts @ [LF]) (csv_records fmt df))"

text \<open>
  The lines of a text are ended by line feeds, so their number is the number of line
  feeds. \<open>no_line_break\<close> says that no field of the table, as it is written, holds a line
  feed or a carriage return.
\<close>

definition count_lines :: "string \<Rightarrow> nat" where
  "count_lines text = length (filter (\<lambda>c. c = LF) text)"


subsection \<open>The clock\<close>

text \<open>
  \<^verbatim>\<open>datetime.now()\<close> reads the wall clock. \<open>strftime_YmdHMS\<close> is
  \<^verbatim>\<open>strftime("%Y%m%d_%H%M%S")\<close>: the year on four digits, every other field on two,
  padded with zeros.
\<close>

record datetime =
  year :: nat
  month :: nat
  day :: nat
  hour :: nat
  minute :: nat
  second :: nat
  microsecond :: nat

definition digit :: "nat \<Rightarrow> char" where
  "digit n = ''0123456789'' ! (n mod 10)"

function str_nat :: "nat \<Rightarrow> string" where
  "str_nat n = (if n < 10 then [digit n] else str_nat (n div 10) @ [digit n])"
  by pat_completeness auto
termination
  by (relation "measure id") auto

declare str_nat.simps [simp del]

definition zfill :: "nat \<Rightarrow> string \<Rightarrow> string" where
  "zfill width s = replicate (width - length s) (CHR ''0'') @ s"



definition strftime_YmdHMS :: "datetime \<Rightarrow> string" where
  "strftime_YmdHMS d =
     zfill 4 (str_nat (year d)) @ zfill 2 (str_nat (month d)) @ zfill 2 (str_nat (day d))
     @ ''_'' @
     zfill 2 (str_nat (hour d)) @ zfill 2 (str_nat (minute d)) @ zfill 2 (str_nat (second d))"

subsection \<open>The world\<close>

text \<open>
  A path of the file system is free, a directory, a CSV file with its text, or the log
  file. The text of the log file is not kept in the node: it is the sequence of \<open>Log\<close>
  events of the trace.

  The trace records, in the order they happen, the records the script hands to the
  logging module (\<open>Log\<close>, with level and message) and its calls of the data library
  (\<open>Contact\<close>, with ticker and period). \<^verbatim>\<open>configure_logging\<close> sets the threshold of the
  root logger to \<^verbatim>\<open>INFO\<close>, the lowest level the script logs at, so every \<open>Log\<close> event is
  one entry of the log.
\<close>

datatype node = Dir | CsvFile string | LogFile

datatype level = INFO | WARNING | ERROR

datatype event = Log level string | Contact string string

datatype 'v printed = Text string | Frame "'v DataFrame"

record 'v world =
  fs :: "path \<Rightarrow> node option"
  trace :: "event list"
  stdout :: "'v printed list"
  now :: datetime
  handler :: "path option"

type_synonym ('a, 'v) action = "'v world \<Rightarrow> (py_exception + 'a) \<times> 'v world"

definition is_dir :: "(path \<Rightarrow> node option) \<Rightarrow> path \<Rightarrow> bool" where
  "is_dir f p = (p = [] \<or> f p = Some Dir)"

definition OSError :: "string \<Rightarrow> string \<Rightarrow> path \<Rightarrow> py_exception" where
  "OSError name text p =
     PyException (Exception_sub name)
       (Inr (text @ '': '' @ [CHR 0x27] @ str_path p @ [CHR 0x27]))"

definition FileExistsError :: "path \<Rightarrow> py_exception" where
  "FileExistsError = OSError ''FileExistsError'' ''[Errno 17] File exists''"

definition FileNotFoundError :: "path \<Rightarrow> py_exception" where
  "FileNotFoundError = OSError ''FileNotFoundError'' ''[Errno 2] No such file or directory''"

definition NotADirectoryError :: "path \<Rightarrow> py_exception" where
  "NotADirectoryError = OSError ''NotADirectoryError'' ''[Errno 20] Not a directory''"

definition IsADirectoryError :: "path \<Rightarrow> py_exception" where
  "IsADirectoryError = OSError ''IsADirectoryError'' ''[Errno 21] Is a directory''"

text \<open>
  \<^verbatim>\<open>Path.mkdir(exist_ok=...)\<close>, without \<^verbatim>\<open>parents\<close>: a free path below a directory
  becomes a directory; a path that is taken raises \<^verbatim>\<open>FileExistsError\<close>, which
  \<^verbatim>\<open>exist_ok\<close> silences when, and only when, the path is a directory.
\<close>

definition Path_mkdir :: "bool \<Rightarrow> path \<Rightarrow> (unit, 'v) action" where
  "Path_mkdir exist_ok p s =
     (case fs s p of
        Some Dir \<Rightarrow> if exist_ok then (Inr (), s) else (Inl (FileExistsError p), s)
      | Some other \<Rightarrow> (Inl (FileExistsError p), s)
      | None \<Rightarrow>
          if is_dir (fs s) (butlast p) then (Inr (), s\<lparr>fs := (fs s)(p \<mapsto> Dir)\<rparr>)
          else if fs s (butlast p) = None then (Inl (FileNotFoundError p), s)
          else (Inl (NotADirectoryError p), s))"

text \<open>
  Opening a file for writing or appending fails when its directory is missing or is not
  a directory, and when the path itself is a directory.
\<close>

definition open_error :: "(path \<Rightarrow> node option) \<Rightarrow> path \<Rightarrow> py_exception option" where
  "open_error f p =
     (if is_dir f (butlast p) then (if f p = Some Dir then Some (IsADirectoryError p) else None)
      else if f (butlast p) = None then Some (FileNotFoundError p)
      else Some (NotADirectoryError p))"

definition logging_log :: "level \<Rightarrow> string \<Rightarrow> 'v world \<Rightarrow> 'v world" where
  "logging_log lvl msg s = s\<lparr>trace := trace s @ [Log lvl msg]\<rparr>"

definition logging_info :: "string \<Rightarrow> 'v world \<Rightarrow> 'v world" where
  "logging_info = logging_log INFO"

definition logging_warning :: "string \<Rightarrow> 'v world \<Rightarrow> 'v world" where
  "logging_warning = logging_log WARNING"

definition logging_error :: "string \<Rightarrow> 'v world \<Rightarrow> 'v world" where
  "logging_error = logging_log ERROR"

definition print :: "'v printed \<Rightarrow> 'v world \<Rightarrow> 'v world" where
  "print x s = s\<lparr>stdout := stdout s @ [x]\<rparr>"

text \<open>
  The line of the log file for a record, after the format
  \<^verbatim>\<open>%(asctime)s - %(levelname)s - %(message)s\<close>.
\<close>

fun levelname :: "level \<Rightarrow> string" where
  "levelname INFO = ''INFO''"
| "levelname WARNING = ''WARNING''"
| "levelname ERROR = ''ERROR''"

definition format_record :: "string \<Rightarrow> level \<Rightarrow> string \<Rightarrow> string" where
  "format_record asctime lvl msg = asctime @ '' - '' @ levelname lvl @ '' - '' @ msg"

text \<open>Selecting events: the log records of one level, and the calls of the data library.\<close>

fun is_Log :: "level \<Rightarrow> event \<Rightarrow> bool" where
  "is_Log lvl (Log l msg) = (l = lvl)"
| "is_Log lvl (Contact ticker period) = False"

fun is_Contact :: "event \<Rightarrow> bool" where
  "is_Contact (Contact ticker period) = True"
| "is_Contact (Log l msg) = False"

subsection \<open>The functions of the script\<close>

definition setup_directories :: "(unit, 'v) action" where
  "setup_directories s =
     (case Path_mkdir True DATA_DIR s of
        (Inl e, s1) \<Rightarrow> (Inl e, s1)
      | (Inr u, s1) \<Rightarrow> Path_mkdir True LOG_DIR s1)"

text \<open>
  \<^verbatim>\<open>logging.basicConfig\<close> does nothing when the root logger has a handler already.
  Otherwise it opens the log file for appending, which creates it when it is missing, and
  installs the handler.
\<close>

definition configure_logging :: "(unit, 'v) action" where
  "configure_logging s =
     (case handler s of
        Some h \<Rightarrow> (Inr (), s)
      | None \<Rightarrow>
          (let filename = LOG_DIR @ [''bovespa_data.log''] in
           case open_error (fs s) filename of
             Some e \<Rightarrow> (Inl e, s)
           | None \<Rightarrow>
               (Inr (),
                s\<lparr>fs := (if fs s filename = None then (fs s)(filename \<mapsto> LogFile) else fs s),
                  handler := Some filename\<rparr>)))"

text \<open>
  The data library is a parameter: for a ticker and a period it returns a table or
  raises. The call stands for the two lines \<^verbatim>\<open>yf.Ticker(TICKER)\<close> and
  \<^verbatim>\<open>ticker.history(period=period)\<close>.

  In the handler the message is built first, with \<^verbatim>\<open>str(e)\<close>, and logged next. The
  handler is not itself inside a \<^verbatim>\<open>try\<close>: when \<^verbatim>\<open>str(e)\<close> raises, that exception
  escapes, nothing is logged and nothing is returned.
\<close>

type_synonym 'v provider = "string \<Rightarrow> string \<Rightarrow> py_exception + 'v DataFrame"

definition start_message :: "string \<Rightarrow> string" where
  "start_message period =
     ''Iniciando coleta de dados para '' @ TICKER @ '' (per'' @ [CHR 0xC3, CHR 0xAD]
     @ ''odo: '' @ period @ '')''"

definition empty_message :: string where
  "empty_message = ''Nenhum dado foi retornado pela API.''"

definition success_message :: string where
  "success_message = ''Dados coletados com sucesso.''"

definition error_message :: "string \<Rightarrow> string" where
  "error_message text = ''Erro na coleta de dados: '' @ text"

text \<open>A start line is an \<^verbatim>\<open>INFO\<close> record whose message opens as the start message does.\<close>

fun is_start_line :: "event \<Rightarrow> bool" where
  "is_start_line (Log l msg) = (l = INFO \<and> prefix ''Iniciando coleta de dados para '' msg)"
| "is_start_line (Contact ticker period) = False"

definition fetch_bovespa_data :: "'v provider \<Rightarrow> string \<Rightarrow> ('v DataFrame, 'v) action" where
  "fetch_bovespa_data yf period s =
     (let s1 = logging_info (start_message period) s;
          s2 = s1\<lparr>trace := trace s1 @ [Contact TICKER period]\<rparr>
      in case yf TICKER period of
           Inr data \<Rightarrow>
             if DataFrame_empty data
             then (Inr pd_DataFrame, logging_warning empty_message s2)
             else (Inr data, logging_info success_message s2)
         | Inl e \<Rightarrow>
             if isinstance_Exception e
             then (case str_of e of
                     Inr text \<Rightarrow> (Inr pd_DataFrame, logging_error (error_message text) s2)
                   | Inl raised \<Rightarrow> (Inl raised, s2))
             else (Inl e, s2))"

definition DataFrame_to_csv ::
  "'v formatter \<Rightarrow> 'v DataFrame \<Rightarrow> path \<Rightarrow> (unit, 'v) action" where
  "DataFrame_to_csv fmt df filename s =
     (case open_error (fs s) filename of
        Some e \<Rightarrow> (Inl e, s)
      | None \<Rightarrow> (Inr (), s\<lparr>fs := (fs s)(filename \<mapsto> CsvFile (csv_text fmt df))\<rparr>))"

definition data_filename :: "datetime \<Rightarrow> path" where
  "data_filename d = DATA_DIR @ [''bovespa_'' @ strftime_YmdHMS d @ ''.csv'']"

definition saved_message :: "path \<Rightarrow> string" where
  "saved_message filename = ''Dados salvos em '' @ str_path filename"

definition save_data :: "'v formatter \<Rightarrow> 'v DataFrame \<Rightarrow> (unit, 'v) action" where
  "save_data fmt data s =
     (let filename = data_filename (now s)
      in case DataFrame_to_csv fmt data filename s of
           (Inl e, s1) \<Rightarrow> (Inl e, s1)
         | (Inr u, s1) \<Rightarrow> (Inr (), logging_info (saved_message filename) s1))"

definition failure_text :: string where
  "failure_text = ''Falha na coleta de dados. Verifique os logs.''"

definition main :: "'v formatter \<Rightarrow> 'v provider \<Rightarrow> (unit, 'v) action" where
  "main fmt yf s =
     (case setup_directories s of
        (Inl e, s1) \<Rightarrow> (Inl e, s1)
      | (Inr u, s1) \<Rightarrow>
     (case configure_logging s1 of
        (Inl e, s2) \<Rightarrow> (Inl e, s2)
      | (Inr u, s2) \<Rightarrow>
     (case fetch_bovespa_data yf ''1mo'' s2 of
        (Inl e, s3) \<Rightarrow> (Inl e, s3)
      | (Inr bovespa_data, s3) \<Rightarrow>
          if \<not> DataFrame_empty bovespa_data
          then save_data fmt bovespa_data
                 (print (Frame (DataFrame_head bovespa_data))
                   (print (Text ''Primeiras linhas dos dados:'') s3))
          else (Inr (), print (Text failure_text) s3))))"

subsection \<open>Sample worlds, tables and providers\<close>

text \<open>
  Concrete inputs for the closed theorems below. \<open>world0\<close> is a fresh working directory on
  20 May 2024 at 14:03:07; \<open>world1\<close> is what \<open>setup_directories\<close> makes of it, and
  \<open>world2\<close> what \<open>configure_logging\<close> makes of \<open>world1\<close>.
\<close>

definition world0 :: "int world" where
  "world0 =
     \<lparr>fs = Map.empty, trace = [], stdout = [],
      now = \<lparr>year = 2024, month = 5, day = 20, hour = 14, minute = 3, second = 7,
             microsecond = 250000\<rparr>,
      handler = None\<rparr>"

definition world1 :: "int world" where
  "world1 = world0\<lparr>fs := [DATA_DIR \<mapsto> Dir, LOG_DIR \<mapsto> Dir]\<rparr>"

definition world2 :: "int world" where
  "world2 =
     world1\<lparr>fs := (fs world1)([''logs'', ''bovespa_data.log''] \<mapsto> LogFile),
            handler := Some [''logs'', ''bovespa_data.log'']\<rparr>"

definition prices :: "int DataFrame" where
  "prices =
     \<lparr>index_name = Some ''Date'', columns = [''Open'', ''Close''],
      rows = [(1, [125, 126]), (2, [126, 124])]\<rparr>"

definition prices_descending :: "int DataFrame" where
  "prices_descending = prices\<lparr>rows := [(2, [126, 124]), (1, [125, 126])]\<rparr>"

definition no_rows :: "int DataFrame" where
  "no_rows = prices\<lparr>rows := []\<rparr>"

definition returning :: "'v DataFrame \<Rightarrow> 'v provider" where
  "returning df ticker period = Inr df"

definition raising :: "py_exception \<Rightarrow> 'v provider" where
  "raising e ticker period = Inl e"

definition ConnectionError :: py_exception where
  "ConnectionError = PyException (Exception_sub ''ConnectionError'') (Inr ''timed out'')"

definition Interrupt :: py_exception where
  "Interrupt = PyException KeyboardInterrupt (Inr [])"

definition Closed :: py_exception where
  "Closed = PyException GeneratorExit (Inr [])"

definition Exit :: py_exception where
  "Exit = PyException SystemExit (Inr ''1'')"

text \<open>
  \<open>BadStr\<close> is an instance of \<^verbatim>\<open>Exception\<close> whose \<^verbatim>\<open>__str__\<close> raises a
  \<^verbatim>\<open>RuntimeError\<close>.
\<close>

definition RuntimeError :: py_exception where
  "RuntimeError = PyException (Exception_sub ''RuntimeError'') (Inr ''no text'')"

definition BadStr :: py_exception where
  "BadStr = PyException (Exception_sub ''BadStr'') (Inl RuntimeError)"

text \<open>
  Sample formatters write an index value as its number. \<open>plain\<close> writes a whole-number
  cell as its number, \<open>verbatim\<close> a text cell as it is. \<open>remarks\<close> is a table of one row with
  a text cell of two lines; \<open>index_only\<close> has two index entries and no column; \<open>world1n\<close>
  is \<open>world1\<close> for tables of text cells.
\<close>

definition str_int :: "int \<Rightarrow> string" where
  "str_int i = (if i < 0 then ''-'' @ str_nat (nat (- i)) else str_nat (nat i))"

definition plain :: "int formatter" where
  "plain = \<lparr>str_index = str_int, str_cell = str_int\<rparr>"



definition index_only :: "int DataFrame" where
  "index_only = \<lparr>index_name = Some ''Date'', columns = [], rows = [(1, []), (2, [])]\<rparr>"


section \<open>Properties\<close>

subsection \<open>The five ways through \<open>fetch_bovespa_data\<close>\<close>

lemma fetch_nonempty:
  "yf TICKER period = Inr data \<Longrightarrow> \<not> DataFrame_empty data \<Longrightarrow>
   fetch_bovespa_data yf period s =
     (Inr data,
      s\<lparr>trace := trace s @ [Log INFO (start_message period), Contact TICKER period,
                            Log INFO success_message]\<rparr>)"
  by (simp add: fetch_bovespa_data_def logging_info_def logging_log_def)

lemma fetch_empty:
  "yf TICKER period = Inr data \<Longrightarrow> DataFrame_empty data \<Longrightarrow>
   fetch_bovespa_data yf period s =
     (Inr pd_DataFrame,
      s\<lparr>trace := trace s @ [Log INFO (start_message period), Contact TICKER period,
                            Log WARNING empty_message]\<rparr>)"
  by (simp add: fetch_bovespa_data_def logging_info_def logging_warning_def logging_log_def)

lemma fetch_caught:
  "yf TICKER period = Inl e \<Longrightarrow> isinstance_Exception e \<Longrightarrow> str_of e = Inr text \<Longrightarrow>
   fetch_bovespa_data yf period s =
     (Inr pd_DataFrame,
      s\<lparr>trace := trace s @ [Log INFO (start_message period), Contact TICKER period,
                            Log ERROR (error_message text)]\<rparr>)"
  by (simp add: fetch_bovespa_data_def logging_info_def logging_error_def logging_log_def)

lemma fetch_handler_raises:
  "yf TICKER period = Inl e \<Longrightarrow> isinstance_Exception e \<Longrightarrow> str_of e = Inl raised \<Longrightarrow>
   fetch_bovespa_data yf period s =
     (Inl raised,
      s\<lparr>trace := trace s @ [Log INFO (start_message period), Contact TICKER period]\<rparr>)"
  by (simp add: fetch_bovespa_data_def logging_info_def logging_log_def)

lemma fetch_uncaught:
  "yf TICKER period = Inl e \<Longrightarrow> \<not> isinstance_Exception e \<Longrightarrow>
   fetch_bovespa_data yf period s =
     (Inl e,
      s\<lparr>trace := trace s @ [Log INFO (start_message period), Contact TICKER period]\<rparr>)"
  by (simp add: fetch_bovespa_data_def logging_info_def logging_log_def)

lemma pd_DataFrame_empty: "DataFrame_empty pd_DataFrame"
  by (simp add: DataFrame_empty_def pd_DataFrame_def)

lemma pd_DataFrame_ascending: "ascending pd_DataFrame"
  by (simp add: ascending_def pd_DataFrame_def)

subsection \<open>Messages\<close>

lemma start_not_success: "start_message period \<noteq> success_message"
  by (simp add: start_message_def success_message_def)

lemma start_message_prefix: "prefix ''Iniciando coleta de dados para '' (start_message period)"
  by (simp add: start_message_def)

lemma success_message_prefix: "\<not> prefix ''Iniciando coleta de dados para '' success_message"
  by (simp add: success_message_def)

lemma start_message_names:
  "sublist TICKER (start_message period) \<and> sublist period (start_message period)"
proof
  show "sublist TICKER (start_message period)"
    using sublist_appendI [of TICKER "''Iniciando coleta de dados para ''"
        "'' (per'' @ [CHR 0xC3, CHR 0xAD] @ ''odo: '' @ period @ '')''"]
    by (simp add: start_message_def)
  show "sublist period (start_message period)"
    using sublist_appendI [of period
        "''Iniciando coleta de dados para '' @ TICKER @ '' (per'' @ [CHR 0xC3, CHR 0xAD]
         @ ''odo: ''"
        "'')''"]
    by (simp add: start_message_def)
qed

lemma error_message_contains: "sublist text (error_message text)"
  unfolding error_message_def by (rule sublist_append_leftI)

lemma format_record_contains_exc:
  "sublist text (format_record asctime lvl (error_message text))"
  using sublist_append_leftI
    [of "text" "asctime @ '' - '' @ levelname lvl @ '' - '' @ ''Erro na coleta de dados: ''"]
  by (simp add: format_record_def error_message_def)


subsection \<open>The sample worlds\<close>

lemma world0_fields: "fs world0 = Map.empty" "trace world0 = []" "stdout world0 = []"
  by (simp_all add: world0_def)

lemma world1_fields:
  "fs world1 = [DATA_DIR \<mapsto> Dir, LOG_DIR \<mapsto> Dir]" "trace world1 = []" "stdout world1 = []"
  by (simp_all add: world1_def world0_def)

lemma world2_fields: "trace world2 = []" "stdout world2 = []"
  by (simp_all add: world2_def world1_def world0_def)

lemma data_filename_world1:
  "data_filename (now world1) = [''data'', ''bovespa_20240520_140307.csv'']"
  by (simp add: world1_def world0_def data_filename_def DATA_DIR_def strftime_YmdHMS_def
      zfill_def str_nat.simps digit_def)



lemma setup_directories_world0: "setup_directories world0 = (Inr (), world1)"
  by (simp add: setup_directories_def Path_mkdir_def world1_def world0_def is_dir_def
      DATA_DIR_def LOG_DIR_def)

lemma configure_logging_world1: "configure_logging world1 = (Inr (), world2)"
  by (simp add: configure_logging_def open_error_def world2_def world1_def world0_def
      is_dir_def DATA_DIR_def LOG_DIR_def Let_def)

subsection \<open>The file system\<close>

lemma Path_mkdir_again:
  "Path_mkdir True p (snd (Path_mkdir True p s)) = Path_mkdir True p s"
  by (auto simp: Path_mkdir_def is_dir_def split: option.split node.split)

lemma Path_mkdir_existing: "fs s p = Some Dir \<Longrightarrow> Path_mkdir True p s = (Inr (), s)"
  by (simp add: Path_mkdir_def)

lemma Path_mkdir_ok:
  "fst (Path_mkdir True p s) = Inr () \<Longrightarrow> fs (snd (Path_mkdir True p s)) p = Some Dir"
  by (simp add: Path_mkdir_def split: option.splits node.splits if_splits)

lemma Path_mkdir_keeps_dir:
  "fs s q = Some Dir \<Longrightarrow> fs (snd (Path_mkdir ok p s)) q = Some Dir"
  by (auto simp: Path_mkdir_def split: option.split node.split)

lemma Path_mkdir_frame:
  "trace (snd (Path_mkdir ok p s)) = trace s \<and> stdout (snd (Path_mkdir ok p s)) = stdout s \<and>
   (\<forall>q. q \<noteq> p \<longrightarrow> fs (snd (Path_mkdir ok p s)) q = fs s q)"
  by (simp add: Path_mkdir_def split: option.split node.split)

lemma setup_directories_again:
  "setup_directories (snd (setup_directories s)) = setup_directories s"
proof -
  obtain r s1 where m1: "Path_mkdir True DATA_DIR s = (r, s1)"
    by (cases "Path_mkdir True DATA_DIR s")
  have again1: "Path_mkdir True DATA_DIR s1 = (r, s1)"
    using Path_mkdir_again [of DATA_DIR s] m1 by simp
  show ?thesis
  proof (cases r)
    case (Inl e)
    with m1 again1 show ?thesis
      by (simp add: setup_directories_def)
  next
    case (Inr u)
    with m1 have s: "setup_directories s = Path_mkdir True LOG_DIR s1"
      by (simp add: setup_directories_def)
    from m1 Inr have "fs s1 DATA_DIR = Some Dir"
      using Path_mkdir_ok [of DATA_DIR s] by simp
    then have "fs (snd (Path_mkdir True LOG_DIR s1)) DATA_DIR = Some Dir"
      by (rule Path_mkdir_keeps_dir)
    then have "Path_mkdir True DATA_DIR (snd (Path_mkdir True LOG_DIR s1)) =
        (Inr (), snd (Path_mkdir True LOG_DIR s1))"
      by (rule Path_mkdir_existing)
    then have "setup_directories (snd (Path_mkdir True LOG_DIR s1)) =
        Path_mkdir True LOG_DIR (snd (Path_mkdir True LOG_DIR s1))"
      by (simp add: setup_directories_def)
    then show ?thesis
      by (simp add: s Path_mkdir_again)
  qed
qed

lemma setup_directories_ok:
  assumes "fst (setup_directories s) = Inr ()"
  shows "fs (snd (setup_directories s)) DATA_DIR = Some Dir"
    and "fs (snd (setup_directories s)) LOG_DIR = Some Dir"
proof -
  obtain r s1 where m1: "Path_mkdir True DATA_DIR s = (r, s1)"
    by (cases "Path_mkdir True DATA_DIR s")
  with assms have r: "r = Inr ()"
    by (cases r) (simp_all add: setup_directories_def)
  with m1 have s: "setup_directories s = Path_mkdir True LOG_DIR s1"
    by (simp add: setup_directories_def)
  from m1 r have "fs s1 DATA_DIR = Some Dir"
    using Path_mkdir_ok [of DATA_DIR s] by simp
  then show "fs (snd (setup_directories s)) DATA_DIR = Some Dir"
    unfolding s by (rule Path_mkdir_keeps_dir)
  from assms s show "fs (snd (setup_directories s)) LOG_DIR = Some Dir"
    using Path_mkdir_ok [of LOG_DIR s1] by simp
qed

lemma setup_directories_frame:
  "trace (snd (setup_directories s)) = trace s \<and> stdout (snd (setup_directories s)) = stdout s \<and>
   (\<forall>q. q \<noteq> DATA_DIR \<longrightarrow> q \<noteq> LOG_DIR \<longrightarrow> fs (snd (setup_directories s)) q = fs s q)"
proof -
  obtain r s1 where m1: "Path_mkdir True DATA_DIR s = (r, s1)"
    by (cases "Path_mkdir True DATA_DIR s")
  have f1: "trace s1 = trace s \<and> stdout s1 = stdout s \<and> (\<forall>q. q \<noteq> DATA_DIR \<longrightarrow> fs s1 q = fs s q)"
    using Path_mkdir_frame [of True DATA_DIR s] m1 by simp
  show ?thesis
  proof (cases r)
    case (Inl e)
    with m1 f1 show ?thesis by (simp add: setup_directories_def)
  next
    case (Inr u)
    with m1 have "setup_directories s = Path_mkdir True LOG_DIR s1"
      by (simp add: setup_directories_def)
    with f1 show ?thesis
      using Path_mkdir_frame [of True LOG_DIR s1] by simp
  qed
qed

lemma configure_logging_frame:
  "trace (snd (configure_logging s)) = trace s \<and> stdout (snd (configure_logging s)) = stdout s \<and>
   (\<forall>q. q \<noteq> LOG_DIR @ [''bovespa_data.log''] \<longrightarrow> fs (snd (configure_logging s)) q = fs s q)"
  by (simp add: configure_logging_def Let_def split: option.split)

lemma open_error_data_file:
  "fs s DATA_DIR = Some Dir \<Longrightarrow> fs s (data_filename d) \<noteq> Some Dir \<Longrightarrow>
   open_error (fs s) (data_filename d) = None"
  by (simp add: open_error_def data_filename_def is_dir_def)

lemma save_data_ok:
  "fs s DATA_DIR = Some Dir \<Longrightarrow> fs s (data_filename (now s)) \<noteq> Some Dir \<Longrightarrow>
   save_data fmt data s =
     (Inr (),
      s\<lparr>fs := (fs s)(data_filename (now s) \<mapsto> CsvFile (csv_text fmt data)),
        trace := trace s @ [Log INFO (saved_message (data_filename (now s)))]\<rparr>)"
  by (simp add: save_data_def DataFrame_to_csv_def open_error_data_file logging_info_def
      logging_log_def Let_def)




subsection \<open>The digits of the time stamp\<close>


















subsection \<open>The lines of the CSV text\<close>









lemma csv_text_header_rows:
  "csv_text fmt df =
     csv_line (index_label df # columns df) @ [LF] @
     concat (map (\<lambda>row. csv_line (csv_record fmt row) @ [LF]) (rows df))"
  by (simp add: csv_text_def csv_records_def comp_def)

lemma csv_text_header_only:
  "csv_text fmt df = csv_line (index_label df # columns df) @ [LF] \<longleftrightarrow> rows df = []"
proof
  assume "rows df = []"
  then show "csv_text fmt df = csv_line (index_label df # columns df) @ [LF]"
    by (simp add: csv_text_header_rows)
next
  assume eq: "csv_text fmt df = csv_line (index_label df # columns df) @ [LF]"
  show "rows df = []"
  proof (cases "rows df")
    case Nil
    then show ?thesis .
  next
    case (Cons row more)
    with eq show ?thesis
      by (simp add: csv_text_header_rows)
  qed
qed

section \<open>The claims\<close>

subsection \<open>C1: what escapes \<open>fetch_bovespa_data\<close>\<close>

text \<open>
  Claim C1 says that \<open>fetch_bovespa_data\<close> returns a table and raises nothing whatever
  the data library does, raising any exception included. The handler names
  \<^verbatim>\<open>Exception\<close>, so an exception outside that class passes through it: with a library
  call interrupted by \<^verbatim>\<open>KeyboardInterrupt\<close> the function raises.
\<close>

theorem fetch_escapes_KeyboardInterrupt:
  "fst (fetch_bovespa_data (raising Interrupt) ''1mo'' world0) = Inl Interrupt"
  by (simp add: fetch_uncaught raising_def Interrupt_def isinstance_Exception_def)

text \<open>
  Claim C1, amended: for every period and every behaviour of the data library,
  \<open>fetch_bovespa_data\<close> returns a table, and raises nothing, exactly when the library
  returns a table or raises an instance of \<^verbatim>\<open>Exception\<close> whose \<^verbatim>\<open>str\<close> returns. An
  exception of the library that is not an instance of \<^verbatim>\<open>Exception\<close> escapes as it is;
  and when \<^verbatim>\<open>str(e)\<close> raises inside the handler, what it raises escapes.
\<close>

theorem fetch_returns_or_raises:
  "((\<exists>table. fst (fetch_bovespa_data yf period s) = Inr table) \<longleftrightarrow>
      (\<forall>e. yf TICKER period = Inl e \<longrightarrow>
         isinstance_Exception e \<and> (\<exists>text. str_of e = Inr text))) \<and>
   (\<forall>e. yf TICKER period = Inl e \<longrightarrow> \<not> isinstance_Exception e \<longrightarrow>
      fst (fetch_bovespa_data yf period s) = Inl e) \<and>
   (\<forall>e raised. yf TICKER period = Inl e \<longrightarrow> isinstance_Exception e \<longrightarrow>
      str_of e = Inl raised \<longrightarrow> fst (fetch_bovespa_data yf period s) = Inl raised)"
proof (cases "yf TICKER period")
  case (Inr data)
  then show ?thesis
    by (cases "DataFrame_empty data") (simp_all add: fetch_empty fetch_nonempty)
next
  case (Inl e)
  then show ?thesis
    by (cases "isinstance_Exception e"; cases "str_of e")
      (simp_all add: fetch_caught fetch_handler_raises fetch_uncaught)
qed

theorem fetch_returns_or_raises_witness:
  "raising ConnectionError TICKER ''1mo'' = Inl ConnectionError \<and>
   isinstance_Exception ConnectionError \<and> str_of ConnectionError = Inr ''timed out'' \<and>
   (\<exists>table. fst (fetch_bovespa_data (raising ConnectionError) ''1mo'' world0) = Inr table) \<and>
   raising BadStr TICKER ''1mo'' = Inl BadStr \<and>
   isinstance_Exception BadStr \<and> str_of BadStr = Inl RuntimeError \<and>
   fst (fetch_bovespa_data (raising BadStr) ''1mo'' world0) = Inl RuntimeError"
  using fetch_returns_or_raises [of "raising ConnectionError" "''1mo''" world0]
    fetch_returns_or_raises [of "raising BadStr" "''1mo''" world0]
  by (simp add: raising_def ConnectionError_def BadStr_def isinstance_Exception_def)

subsection \<open>C2: the error line\<close>

text \<open>
  Claim C2 says that for every exception the data library raises the call returns an
  empty table and logs exactly one \<^verbatim>\<open>ERROR\<close> line. With \<^verbatim>\<open>SystemExit\<close> the call
  returns nothing and logs no \<^verbatim>\<open>ERROR\<close> line.
\<close>

theorem fetch_SystemExit_no_ERROR_line:
  "fst (fetch_bovespa_data (raising Exit) ''1mo'' world0) = Inl Exit \<and>
   filter (is_Log ERROR) (trace (snd (fetch_bovespa_data (raising Exit) ''1mo'' world0))) = []"
  by (simp add: fetch_uncaught raising_def Exit_def isinstance_Exception_def world0_fields)

text \<open>
  Claim C2, amended: for every instance of \<^verbatim>\<open>Exception\<close> raised by the data library
  whose \<^verbatim>\<open>str\<close> returns a text, the call returns the empty table \<^verbatim>\<open>pd.DataFrame()\<close>
  and appends to the log the start line and exactly one \<^verbatim>\<open>ERROR\<close> line; the message of
  that line, and so the line as the format writes it, contains that text.
\<close>

theorem fetch_logs_caught_exception:
  fixes yf :: "'v provider"
  assumes "yf TICKER period = Inl e" and "isinstance_Exception e" and "str_of e = Inr text"
  shows "fst (fetch_bovespa_data yf period s) = Inr pd_DataFrame \<and>
    DataFrame_empty (pd_DataFrame :: 'v DataFrame) \<and>
    trace (snd (fetch_bovespa_data yf period s)) =
      trace s @ [Log INFO (start_message period), Contact TICKER period,
                 Log ERROR (error_message text)] \<and>
    filter (is_Log ERROR)
      [Log INFO (start_message period), Contact TICKER period, Log ERROR (error_message text)] =
      [Log ERROR (error_message text)] \<and>
    sublist text (error_message text) \<and>
    sublist text (format_record asctime ERROR (error_message text))"
  using assms
  by (simp add: fetch_caught error_message_contains format_record_contains_exc
      pd_DataFrame_empty)

theorem fetch_logs_caught_exception_witness:
  "raising ConnectionError TICKER ''1mo'' = Inl ConnectionError \<and>
   isinstance_Exception ConnectionError \<and> str_of ConnectionError = Inr ''timed out'' \<and>
   fst (fetch_bovespa_data (raising ConnectionError) ''1mo'' world0) = Inr pd_DataFrame \<and>
   trace (snd (fetch_bovespa_data (raising ConnectionError) ''1mo'' world0)) =
     [Log INFO (start_message ''1mo''), Contact TICKER ''1mo'',
      Log ERROR ''Erro na coleta de dados: timed out''] \<and>
   sublist ''timed out'' ''Erro na coleta de dados: timed out''"
proof -
  have 1: "raising ConnectionError TICKER ''1mo'' = Inl ConnectionError"
    by (simp add: raising_def)
  have 2: "isinstance_Exception ConnectionError"
    by (simp add: ConnectionError_def isinstance_Exception_def)
  have 3: "str_of ConnectionError = Inr ''timed out''"
    by (simp add: ConnectionError_def)
  note run = fetch_logs_caught_exception
      [where yf = "raising ConnectionError" and e = ConnectionError and s = world0
         and asctime = "[]", OF 1 2 3]
  from run have 4: "trace (snd (fetch_bovespa_data (raising ConnectionError) ''1mo'' world0)) =
      [Log INFO (start_message ''1mo''), Contact TICKER ''1mo'',
       Log ERROR ''Erro na coleta de dados: timed out'']"
    by (simp add: world0_fields error_message_def)
  from run have 5: "sublist ''timed out'' ''Erro na coleta de dados: timed out''"
    by (simp add: error_message_def)
  from run 1 2 3 4 5 show ?thesis
    by blast
qed

subsection \<open>C3: a table that is not empty\<close>

text \<open>
  Claim C3: when the data library returns a table that is not empty,
  \<open>fetch_bovespa_data\<close> returns that very table, and what it appends to the log is the
  start line and one \<^verbatim>\<open>INFO\<close> success line; nothing else of the world changes.
\<close>

theorem fetch_returns_provider_table:
  assumes "yf TICKER period = Inr data" and "\<not> DataFrame_empty data"
  shows "fetch_bovespa_data yf period s =
      (Inr data,
       s\<lparr>trace := trace s @ [Log INFO (start_message period), Contact TICKER period,
                             Log INFO success_message]\<rparr>) \<and>
    filter (\<lambda>ev. ev = Log INFO success_message)
      [Log INFO (start_message period), Contact TICKER period, Log INFO success_message] =
      [Log INFO success_message]"
  using assms by (simp add: fetch_nonempty start_not_success)

theorem fetch_returns_provider_table_witness:
  "returning prices TICKER ''1mo'' = Inr prices \<and> \<not> DataFrame_empty prices \<and>
   fst (fetch_bovespa_data (returning prices) ''1mo'' world0) = Inr prices \<and>
   trace (snd (fetch_bovespa_data (returning prices) ''1mo'' world0)) =
     [Log INFO (start_message ''1mo''), Contact TICKER ''1mo'', Log INFO success_message]"
  using fetch_returns_provider_table [of "returning prices" "''1mo''" prices world0]
  by (simp add: returning_def prices_def DataFrame_empty_def world0_def)

subsection \<open>C8: \<open>setup_directories\<close> twice\<close>

text \<open>
  Claim C8: running \<open>setup_directories\<close> a second time gives the outcome of the first
  run and leaves the world as the first run left it. In particular, when the first run
  raised nothing, the second raises nothing, and both directories are there as before.
\<close>

theorem setup_directories_idempotent:
  "setup_directories (snd (setup_directories s)) = setup_directories s \<and>
   (fst (setup_directories s) = Inr () \<longrightarrow>
      setup_directories (snd (setup_directories s)) = (Inr (), snd (setup_directories s)) \<and>
      fs (snd (setup_directories s)) DATA_DIR = Some Dir \<and>
      fs (snd (setup_directories s)) LOG_DIR = Some Dir)"
proof (intro conjI impI)
  show again: "setup_directories (snd (setup_directories s)) = setup_directories s"
    by (rule setup_directories_again)
  assume ok: "fst (setup_directories s) = Inr ()"
  then have "setup_directories s = (Inr (), snd (setup_directories s))"
    by (cases "setup_directories s") simp
  with again
  show "setup_directories (snd (setup_directories s)) = (Inr (), snd (setup_directories s))"
    by simp
  from ok show "fs (snd (setup_directories s)) DATA_DIR = Some Dir"
    by (rule setup_directories_ok)
  from ok show "fs (snd (setup_directories s)) LOG_DIR = Some Dir"
    by (rule setup_directories_ok)
qed

theorem setup_directories_idempotent_witness:
  "fst (setup_directories world0) = Inr () \<and>
   setup_directories (snd (setup_directories world0)) = (Inr (), snd (setup_directories world0)) \<and>
   fs (snd (setup_directories world0)) [''data''] = Some Dir \<and>
   fs (snd (setup_directories world0)) [''logs''] = Some Dir \<and>
   fs world0 [''data''] = None"
  using setup_directories_idempotent [of world0]
  by (simp add: setup_directories_world0 world0_fields world1_fields DATA_DIR_def LOG_DIR_def)

subsection \<open>C6: the order of the rows\<close>

text \<open>
  Claim C6 says that the table \<open>fetch_bovespa_data\<close> returns is empty or has its rows in
  ascending order of timestamp. The function neither sorts nor checks: a table that is
  not empty comes back as the data library gave it, here with descending timestamps.
\<close>

theorem fetch_passes_unsorted_table:
  "fst (fetch_bovespa_data (returning prices_descending) ''1mo'' world0) = Inr prices_descending \<and>
   \<not> DataFrame_empty prices_descending \<and> \<not> ascending prices_descending"
proof -
  have "\<not> DataFrame_empty prices_descending"
    by (simp add: DataFrame_empty_def prices_descending_def prices_def)
  moreover have "\<not> ascending prices_descending"
    by (simp add: ascending_def prices_descending_def prices_def)
  ultimately show ?thesis
    by (simp add: fetch_nonempty returning_def)
qed

text \<open>
  Claim C6, amended: for every period, the table \<open>fetch_bovespa_data\<close> returns is either
  the empty table \<^verbatim>\<open>pd.DataFrame()\<close> or the whole table the data library returned, never
  a part of it; so its rows are in ascending order of timestamp whenever the rows of the
  library's table are.
\<close>

theorem fetch_table_is_providers_or_empty:
  assumes "fst (fetch_bovespa_data yf period s) = Inr table"
  shows "((table = pd_DataFrame \<and> DataFrame_empty table) \<or>
          (yf TICKER period = Inr table \<and> \<not> DataFrame_empty table)) \<and>
    ((\<forall>data. yf TICKER period = Inr data \<longrightarrow> ascending data) \<longrightarrow> ascending table)"
proof (cases "yf TICKER period")
  case (Inr data)
  with assms show ?thesis
    by (cases "DataFrame_empty data")
      (auto simp: fetch_empty fetch_nonempty pd_DataFrame_empty pd_DataFrame_ascending)
next
  case (Inl e)
  with assms show ?thesis
    by (cases "isinstance_Exception e"; cases "str_of e")
      (auto simp: fetch_caught fetch_handler_raises fetch_uncaught pd_DataFrame_empty
        pd_DataFrame_ascending)
qed

theorem fetch_table_is_providers_or_empty_witness:
  "fst (fetch_bovespa_data (returning prices) ''1mo'' world0) = Inr prices \<and>
   returning prices TICKER ''1mo'' = Inr prices \<and> \<not> DataFrame_empty prices \<and>
   ascending prices"
proof -
  have ne: "\<not> DataFrame_empty prices"
    by (simp add: DataFrame_empty_def prices_def)
  have r: "fst (fetch_bovespa_data (returning prices) ''1mo'' world0) = Inr prices"
    using ne by (simp add: fetch_nonempty returning_def)
  have a: "\<forall>data. returning prices TICKER ''1mo'' = Inr data \<longrightarrow> ascending data"
    by (simp add: returning_def ascending_def prices_def)
  show ?thesis
    using fetch_table_is_providers_or_empty [OF r] ne r a by (simp add: returning_def)
qed

subsection \<open>C10: the start line\<close>

text \<open>
  Claim C10: whatever the data library does, \<open>fetch_bovespa_data\<close> appends to the log
  exactly one \<^verbatim>\<open>INFO\<close> start line, which names the ticker and the period, and it appends
  it before it calls the data library: what follows the call holds no start line and no
  further call.
\<close>

theorem fetch_logs_start_before_contact:
  "\<exists>rest.
     trace (snd (fetch_bovespa_data yf period s)) =
       trace s @ Log INFO (start_message period) # Contact TICKER period # rest \<and>
     filter is_start_line rest = [] \<and> filter is_Contact rest = [] \<and>
     is_start_line (Log INFO (start_message period)) \<and>
     sublist TICKER (start_message period) \<and> sublist period (start_message period)"
proof (cases "yf TICKER period")
  case (Inr data)
  then show ?thesis
    by (cases "DataFrame_empty data")
      (simp_all add: fetch_empty fetch_nonempty start_message_names
        start_message_prefix success_message_prefix)
next
  case (Inl e)
  then show ?thesis
    by (cases "isinstance_Exception e"; cases "str_of e")
      (simp_all add: fetch_caught fetch_handler_raises fetch_uncaught start_message_names
        start_message_prefix)
qed

subsection \<open>C4: the file \<open>save_data\<close> writes\<close>




subsection \<open>C9: \<open>save_data\<close> on an empty table\<close>

text \<open>
  Claim C9 says that \<open>save_data\<close>, given an empty table, writes a file that holds the
  header line and nothing else. A table is empty, as \<^verbatim>\<open>.empty\<close> has it, also when it has
  index entries and no column: for such a table the file holds one more line for each
  index entry.
\<close>

theorem save_data_index_only_writes_rows:
  "DataFrame_empty index_only \<and>
   fs (snd (save_data plain index_only world1)) [''data'', ''bovespa_20240520_140307.csv''] =
     Some (CsvFile (''Date'' @ [LF] @ ''1'' @ [LF] @ ''2'' @ [LF])) \<and>
   csv_line (index_label index_only # columns index_only) @ [LF] = ''Date'' @ [LF] \<and>
   count_lines (''Date'' @ [LF] @ ''1'' @ [LF] @ ''2'' @ [LF]) = 3"
proof -
  have "csv_text plain index_only = ''Date'' @ [LF] @ ''1'' @ [LF] @ ''2'' @ [LF]"
    by (simp add: csv_text_def csv_records_def csv_line_def csv_quote_def needs_quotes_def
        index_label_def index_only_def plain_def str_int_def str_nat.simps digit_def LF_def
        CR_def)
  moreover have "csv_line (index_label index_only # columns index_only) @ [LF] = ''Date'' @ [LF]"
    by (simp add: csv_line_def csv_quote_def needs_quotes_def index_label_def index_only_def
        LF_def CR_def)
  moreover have "DataFrame_empty index_only"
    by (simp add: DataFrame_empty_def index_only_def)
  moreover have "count_lines (''Date'' @ [LF] @ ''1'' @ [LF] @ ''2'' @ [LF]) = 3"
    by (simp add: count_lines_def LF_def)
  moreover have "fs (snd (save_data plain index_only world1))
      [''data'', ''bovespa_20240520_140307.csv''] = Some (CsvFile (csv_text plain index_only))"
    by (simp add: save_data_ok world1_fields data_filename_world1 DATA_DIR_def LOG_DIR_def)
  ultimately show ?thesis
    by simp
qed

text \<open>
  Claim C9, amended: \<open>save_data\<close> has no guard against an empty table. Given a table that
  is empty, as \<^verbatim>\<open>.empty\<close> has it, it raises nothing and writes the header line followed
  by one line for each index entry of the table; the file holds the header line and
  nothing else exactly when the table has no rows. The file can be written under the
  conditions of C4.
\<close>

theorem save_data_empty_table:
  assumes "DataFrame_empty data"
    and "fs s DATA_DIR = Some Dir" and "fs s (data_filename (now s)) \<noteq> Some Dir"
  shows "fst (save_data fmt data s) = Inr () \<and>
    fs (snd (save_data fmt data s)) (data_filename (now s)) = Some (CsvFile (csv_text fmt data)) \<and>
    csv_text fmt data =
      csv_line (index_label data # columns data) @ [LF] @
      concat (map (\<lambda>row. csv_line (csv_record fmt row) @ [LF]) (rows data)) \<and>
    (csv_text fmt data = csv_line (index_label data # columns data) @ [LF] \<longleftrightarrow> rows data = [])"
proof (intro conjI)
  show "fst (save_data fmt data s) = Inr ()"
    using assms(2,3) by (simp add: save_data_ok)
  show "fs (snd (save_data fmt data s)) (data_filename (now s)) = Some (CsvFile (csv_text fmt data))"
    using assms(2,3) by (simp add: save_data_ok)
  show "csv_text fmt data =
      csv_line (index_label data # columns data) @ [LF] @
      concat (map (\<lambda>row. csv_line (csv_record fmt row) @ [LF]) (rows data))"
    by (rule csv_text_header_rows)
  show "csv_text fmt data = csv_line (index_label data # columns data) @ [LF] \<longleftrightarrow> rows data = []"
    by (rule csv_text_header_only)
qed

theorem save_data_empty_table_witness:
  "DataFrame_empty no_rows \<and>
   fs world1 DATA_DIR = Some Dir \<and> fs world1 (data_filename (now world1)) \<noteq> Some Dir \<and>
   fst (save_data plain no_rows world1) = Inr () \<and>
   fs (snd (save_data plain no_rows world1)) [''data'', ''bovespa_20240520_140307.csv''] =
     Some (CsvFile (''Date,Open,Close'' @ [LF])) \<and>
   DataFrame_empty (pd_DataFrame :: int DataFrame) \<and>
   fs (snd (save_data plain pd_DataFrame world1)) [''data'', ''bovespa_20240520_140307.csv''] =
     Some (CsvFile ([CHR 0x22, CHR 0x22] @ [LF]))"
proof -
  have 1: "DataFrame_empty no_rows"
    by (simp add: DataFrame_empty_def no_rows_def)
  have 2: "fs world1 DATA_DIR = Some Dir"
    by (simp add: world1_fields DATA_DIR_def LOG_DIR_def)
  have 3: "fs world1 (data_filename (now world1)) \<noteq> Some Dir"
    by (simp add: world1_fields data_filename_world1 DATA_DIR_def LOG_DIR_def)
  have 4: "DataFrame_empty (pd_DataFrame :: int DataFrame)"
    by (rule pd_DataFrame_empty)
  have t1: "csv_text plain no_rows = ''Date,Open,Close'' @ [LF]"
    by (simp add: csv_text_def csv_records_def csv_line_def csv_quote_def needs_quotes_def
        index_label_def no_rows_def prices_def LF_def CR_def)
  have t2: "csv_text plain (pd_DataFrame :: int DataFrame) = [CHR 0x22, CHR 0x22] @ [LF]"
    by (simp add: csv_text_def csv_records_def csv_line_def index_label_def pd_DataFrame_def)
  note a = save_data_empty_table [where fmt = plain, OF 1 2 3]
  note b = save_data_empty_table [where fmt = plain, OF 4 2 3]
  from a have 5: "fst (save_data plain no_rows world1) = Inr ()"
    by blast
  from a have "fs (snd (save_data plain no_rows world1)) (data_filename (now world1)) =
      Some (CsvFile (csv_text plain no_rows))"
    by blast
  then have 6:
    "fs (snd (save_data plain no_rows world1)) [''data'', ''bovespa_20240520_140307.csv''] =
      Some (CsvFile (''Date,Open,Close'' @ [LF]))"
    by (simp only: data_filename_world1 t1)
  from b have "fs (snd (save_data plain pd_DataFrame world1)) (data_filename (now world1)) =
      Some (CsvFile (csv_text plain pd_DataFrame))"
    by blast
  then have 7:
    "fs (snd (save_data plain pd_DataFrame world1)) [''data'', ''bovespa_20240520_140307.csv''] =
      Some (CsvFile ([CHR 0x22, CHR 0x22] @ [LF]))"
    by (simp only: data_filename_world1 t2)
  from 1 2 3 4 5 6 7 show ?thesis
    by blast
qed

subsection \<open>C5: a whole run when the data library raises\<close>

text \<open>
  Claim C5 says that when the data library raises an exception, a run writes no file to
  \<^verbatim>\<open>data\<close>, logs exactly one \<^verbatim>\<open>ERROR\<close> line and prints the failure message. With
  \<^verbatim>\<open>KeyboardInterrupt\<close> the run ends with that exception: nothing is printed and no
  \<^verbatim>\<open>ERROR\<close> line is logged.
\<close>

theorem main_escapes_KeyboardInterrupt:
  "fst (main plain (raising Interrupt) world0) = Inl Interrupt \<and>
   stdout (snd (main plain (raising Interrupt) world0)) = [] \<and>
   filter (is_Log ERROR) (trace (snd (main plain (raising Interrupt) world0))) = []"
  by (simp add: main_def setup_directories_world0 configure_logging_world1 world2_fields
      fetch_uncaught raising_def Interrupt_def isinstance_Exception_def)

text \<open>
  Claim C5, amended: when the data library raises an instance of \<^verbatim>\<open>Exception\<close> whose
  \<^verbatim>\<open>str\<close> returns a text, a run whose directory and logging setup succeed ends normally;
  no path inside \<^verbatim>\<open>data\<close> changes; the log gets the start line and exactly one
  \<^verbatim>\<open>ERROR\<close> line, which contains that text; and the one thing printed is the failure
  message.
\<close>

theorem main_provider_exception:
  assumes "yf TICKER ''1mo'' = Inl e" and "isinstance_Exception e" and "str_of e = Inr text"
    and "fst (setup_directories s) = Inr ()"
    and "fst (configure_logging (snd (setup_directories s))) = Inr ()"
  shows "fst (main fmt yf s) = Inr () \<and>
    (\<forall>p. strict_prefix DATA_DIR p \<longrightarrow> fs (snd (main fmt yf s)) p = fs s p) \<and>
    trace (snd (main fmt yf s)) =
      trace s @ [Log INFO (start_message ''1mo''), Contact TICKER ''1mo'',
                 Log ERROR (error_message text)] \<and>
    filter (is_Log ERROR)
      [Log INFO (start_message ''1mo''), Contact TICKER ''1mo'', Log ERROR (error_message text)] =
      [Log ERROR (error_message text)] \<and>
    sublist text (error_message text) \<and>
    stdout (snd (main fmt yf s)) = stdout s @ [Text failure_text]"
proof -
  obtain s1 where s1: "setup_directories s = (Inr (), s1)"
    using assms(4) by (cases "setup_directories s") simp
  obtain s2 where s2: "configure_logging s1 = (Inr (), s2)"
    using assms(5) s1 by (cases "configure_logging s1") simp
  have f1: "trace s1 = trace s \<and> stdout s1 = stdout s \<and>
      (\<forall>q. q \<noteq> DATA_DIR \<longrightarrow> q \<noteq> LOG_DIR \<longrightarrow> fs s1 q = fs s q)"
    using setup_directories_frame [of s] s1 by simp
  have f2: "trace s2 = trace s1 \<and> stdout s2 = stdout s1 \<and>
      (\<forall>q. q \<noteq> LOG_DIR @ [''bovespa_data.log''] \<longrightarrow> fs s2 q = fs s1 q)"
    using configure_logging_frame [of s1] s2 by simp
  have m: "main fmt yf s =
      (Inr (),
       print (Text failure_text)
         (s2\<lparr>trace := trace s2 @ [Log INFO (start_message ''1mo''), Contact TICKER ''1mo'',
                                  Log ERROR (error_message text)]\<rparr>))"
    using assms(1,2,3) by (simp add: main_def s1 s2 fetch_caught pd_DataFrame_empty)
  have inside: "fs s2 p = fs s p" if "strict_prefix DATA_DIR p" for p
  proof -
    from that obtain c cs where "p = ''data'' # c # cs"
      by (cases p; cases "tl p") (auto simp: DATA_DIR_def strict_prefix_def)
    then have "p \<noteq> DATA_DIR" "p \<noteq> LOG_DIR" "p \<noteq> LOG_DIR @ [''bovespa_data.log'']"
      by (simp_all add: DATA_DIR_def LOG_DIR_def)
    with f1 f2 show ?thesis by simp
  qed
  show ?thesis
    using f1 f2 inside by (simp add: m print_def error_message_contains)
qed

theorem main_provider_exception_witness:
  "raising ConnectionError TICKER ''1mo'' = Inl ConnectionError \<and>
   isinstance_Exception ConnectionError \<and> str_of ConnectionError = Inr ''timed out'' \<and>
   fst (setup_directories world0) = Inr () \<and>
   fst (configure_logging (snd (setup_directories world0))) = Inr () \<and>
   fst (main plain (raising ConnectionError) world0) = Inr () \<and>
   strict_prefix DATA_DIR [''data'', ''bovespa_20240520_140307.csv''] \<and>
   fs (snd (main plain (raising ConnectionError) world0))
     [''data'', ''bovespa_20240520_140307.csv''] = None \<and>
   trace (snd (main plain (raising ConnectionError) world0)) =
     [Log INFO (start_message ''1mo''), Contact TICKER ''1mo'',
      Log ERROR ''Erro na coleta de dados: timed out''] \<and>
   stdout (snd (main plain (raising ConnectionError) world0)) =
     [Text ''Falha na coleta de dados. Verifique os logs.'']"
proof -
  have 1: "raising ConnectionError TICKER ''1mo'' = Inl ConnectionError"
    by (simp add: raising_def)
  have 2: "isinstance_Exception ConnectionError"
    by (simp add: ConnectionError_def isinstance_Exception_def)
  have 3: "str_of ConnectionError = Inr ''timed out''"
    by (simp add: ConnectionError_def)
  have 4: "fst (setup_directories world0) = Inr ()"
    by (simp add: setup_directories_world0)
  have 5: "fst (configure_logging (snd (setup_directories world0))) = Inr ()"
    by (simp add: setup_directories_world0 configure_logging_world1)
  note run = main_provider_exception
      [where yf = "raising ConnectionError" and e = ConnectionError and s = world0
         and fmt = plain, OF 1 2 3 4 5]
  from run have "trace (snd (main plain (raising ConnectionError) world0)) =
      trace world0 @ [Log INFO (start_message ''1mo''), Contact TICKER ''1mo'',
                      Log ERROR (error_message ''timed out'')]"
    by blast
  then have 6: "trace (snd (main plain (raising ConnectionError) world0)) =
      [Log INFO (start_message ''1mo''), Contact TICKER ''1mo'',
       Log ERROR ''Erro na coleta de dados: timed out'']"
    by (simp add: world0_fields error_message_def)
  from run have "stdout (snd (main plain (raising ConnectionError) world0)) =
      stdout world0 @ [Text failure_text]"
    by blast
  then have 7: "stdout (snd (main plain (raising ConnectionError) world0)) =
      [Text ''Falha na coleta de dados. Verifique os logs.'']"
    by (simp add: world0_fields failure_text_def)
  have 8: "strict_prefix DATA_DIR [''data'', ''bovespa_20240520_140307.csv'']"
    by (simp add: DATA_DIR_def strict_prefix_def)
  from run 8
  have "fs (snd (main plain (raising ConnectionError) world0))
      [''data'', ''bovespa_20240520_140307.csv''] =
      fs world0 [''data'', ''bovespa_20240520_140307.csv'']"
    by blast
  then have 9: "fs (snd (main plain (raising ConnectionError) world0))
      [''data'', ''bovespa_20240520_140307.csv''] = None"
    by (simp add: world0_fields)
  from run 1 2 3 4 5 6 7 8 9 show ?thesis
    by blast
qed

subsection \<open>C7: an empty answer and an error give the same value\<close>

text \<open>
  Claim C7 says that a run in which the data library returns an empty table and a run in
  which it raises an exception return the same value. When the exception is
  \<^verbatim>\<open>GeneratorExit\<close> the second run returns no value at all: the exception escapes.
\<close>

theorem fetch_empty_differs_from_GeneratorExit:
  "fst (fetch_bovespa_data (returning no_rows) ''1mo'' world0) = Inr pd_DataFrame \<and>
   fst (fetch_bovespa_data (raising Closed) ''1mo'' world0) = Inl Closed \<and>
   fst (fetch_bovespa_data (returning no_rows) ''1mo'' world0) \<noteq>
     fst (fetch_bovespa_data (raising Closed) ''1mo'' world0)"
proof -
  have "DataFrame_empty no_rows"
    by (simp add: DataFrame_empty_def no_rows_def)
  then show ?thesis
    by (simp add: fetch_empty fetch_uncaught returning_def raising_def Closed_def
        isinstance_Exception_def)
qed

text \<open>
  Claim C7, amended: of any two runs, one in which the data library returns an empty
  table and one in which it raises an instance of \<^verbatim>\<open>Exception\<close> whose \<^verbatim>\<open>str\<close> returns
  a text, the values returned are the same, the empty table \<^verbatim>\<open>pd.DataFrame()\<close>; the
  runs differ in what they append to the log, a \<^verbatim>\<open>WARNING\<close> line in the first and an
  \<^verbatim>\<open>ERROR\<close> line in the second.
\<close>

theorem fetch_empty_and_error_same_value:
  assumes "yf_a TICKER period_a = Inr data" and "DataFrame_empty data"
    and "yf_b TICKER period_b = Inl e" and "isinstance_Exception e" and "str_of e = Inr text"
  shows "fst (fetch_bovespa_data yf_a period_a s_a) = fst (fetch_bovespa_data yf_b period_b s_b) \<and>
    fst (fetch_bovespa_data yf_a period_a s_a) = Inr pd_DataFrame \<and>
    trace (snd (fetch_bovespa_data yf_a period_a s_a)) =
      trace s_a @ [Log INFO (start_message period_a), Contact TICKER period_a,
                  Log WARNING empty_message] \<and>
    trace (snd (fetch_bovespa_data yf_b period_b s_b)) =
      trace s_b @ [Log INFO (start_message period_b), Contact TICKER period_b,
                  Log ERROR (error_message text)] \<and>
    Log WARNING empty_message \<noteq> Log ERROR (error_message text)"
  using assms by (simp add: fetch_empty fetch_caught)

theorem fetch_empty_and_error_same_value_witness:
  "returning no_rows TICKER ''1mo'' = Inr no_rows \<and> DataFrame_empty no_rows \<and>
   raising ConnectionError TICKER ''1y'' = Inl ConnectionError \<and>
   isinstance_Exception ConnectionError \<and> str_of ConnectionError = Inr ''timed out'' \<and>
   fst (fetch_bovespa_data (returning no_rows) ''1mo'' world0) =
     fst (fetch_bovespa_data (raising ConnectionError) ''1y'' world1) \<and>
   fst (fetch_bovespa_data (returning no_rows) ''1mo'' world0) = Inr pd_DataFrame"
proof -
  have 1: "returning no_rows TICKER ''1mo'' = Inr no_rows"
    by (simp add: returning_def)
  have 2: "DataFrame_empty no_rows"
    by (simp add: DataFrame_empty_def no_rows_def)
  have 3: "raising ConnectionError TICKER ''1y'' = Inl ConnectionError"
    by (simp add: raising_def)
  have 4: "isinstance_Exception ConnectionError"
    by (simp add: ConnectionError_def isinstance_Exception_def)
  have 5: "str_of ConnectionError = Inr ''timed out''"
    by (simp add: ConnectionError_def)
  from fetch_empty_and_error_same_value
    [where yf_a = "returning no_rows" and period_a = "''1mo''" and data = no_rows
       and yf_b = "raising ConnectionError" and period_b = "''1y''" and e = ConnectionError
       and s_a = world0 and s_b = world1, OF 1 2 3 4 5] 1 2 3 4 5
  show ?thesis
    by blast
qed

end
